theory Spec2Isabelle
  imports Main "HOL-Library.AList"
begin

section \<open>Theme resolver (hooks/useTheme.tsx)\<close>

subsection \<open>Data\<close>

text \<open>
  \<^verbatim>\<open>type Theme = 'light' | 'dark' | 'system'\<close>. The resolved theme is declared
  as \<^verbatim>\<open>'light' | 'dark'\<close>; at run time it is a value of the same three-string
  domain, so it is modelled with the type \<open>Theme\<close> and its never being \<open>System\<close> is
  proved, not assumed.
\<close>

datatype Theme = Light | Dark | System

text \<open>The string literal that stands for a theme value at run time.\<close>

fun literal :: "Theme \<Rightarrow> string" where
  "literal Light = ''light''"
| "literal Dark = ''dark''"
| "literal System = ''system''"

text \<open>
  Exceptions: a \<open>DOMException\<close> (by name) thrown by the browser's storage, and the
  \<open>Error\<close> (by message) that \<open>useTheme\<close> throws.
\<close>

datatype exn = DOMException string | Error string

definition THEME_STORAGE_KEY :: string where
  "THEME_STORAGE_KEY = ''letrecovery-theme''"

text \<open>
  \<open>window.localStorage\<close>: an ordered list of key-value pairs of strings, with at most
  one pair for a key. Its accessors may throw (\<open>SecurityError\<close> when access is denied,
  \<open>QuotaExceededError\<close> on a full store): \<open>getFault\<close> and \<open>setFault\<close> are the
  exception that the respective accessor throws, if any. \<open>getItem\<close> returns \<open>null\<close>
  (here \<open>None\<close>) for a key that is not there; \<open>setItem\<close> replaces the value of a key
  that is there and appends a new pair otherwise.
\<close>

record Storage =
  entries :: "(string \<times> string) list"
  getFault :: "exn option"
  setFault :: "exn option"

definition getItem :: "Storage \<Rightarrow> string \<Rightarrow> exn + string option" where
  "getItem st k = (case getFault st of Some e \<Rightarrow> Inl e | None \<Rightarrow> Inr (map_of (entries st) k))"

definition setItem :: "Storage \<Rightarrow> string \<Rightarrow> string \<Rightarrow> exn + Storage" where
  "setItem st k v =
     (case setFault st of
        Some e \<Rightarrow> Inl e
      | None \<Rightarrow> Inr (st\<lparr>entries := AList.update k v (entries st)\<rparr>))"

text \<open>
  \<open>Element.classList\<close> is an ordered set of tokens: \<open>add\<close> appends a token that is
  not yet there, \<open>remove\<close> deletes it.
\<close>

definition classList_add :: "string \<Rightarrow> string list \<Rightarrow> string list" where
  "classList_add t cs = (if t \<in> set cs then cs else cs @ [t])"

definition classList_remove :: "string \<Rightarrow> string list \<Rightarrow> string list" where
  "classList_remove t cs = removeAll t cs"

text \<open>
  The part of the browser that the provider reads and writes: the storage, the result of
  \<^verbatim>\<open>window.matchMedia('(prefers-color-scheme: dark)').matches\<close>, and the class
  list of \<open>document.documentElement\<close>.
\<close>

record Browser =
  localStorage :: Storage
  prefersDark :: bool
  classList :: "string list"

text \<open>
  A mounted \<open>ThemeProvider\<close>: the browser together with the two \<open>useState\<close> cells and
  the \<open>change\<close> listeners that the provider's effect has registered on the media query.
  A \<open>handleChange\<close> closure is determined by the \<open>theme\<close> it captured, so a listener is
  recorded as that captured value.
\<close>

record Provider = Browser +
  theme :: Theme
  resolvedTheme :: Theme
  listeners :: "Theme list"

subsection \<open>Initialisation\<close>

text \<open>
  The lazy initialiser of \<^verbatim>\<open>useState<Theme>\<close> (lines 16-24). The first argument
  is \<^verbatim>\<open>typeof window !== 'undefined'\<close>. There is no \<open>try\<close> around
  \<open>getItem\<close>: an exception leaves the initialiser.
\<close>

definition initialTheme :: "bool \<Rightarrow> Storage \<Rightarrow> exn + Theme" where
  "initialTheme window_defined st =
     (if window_defined then
        (case getItem st THEME_STORAGE_KEY of
           Inl e \<Rightarrow> Inl e
         | Inr stored \<Rightarrow>
             if stored = Some ''light'' then Inr Light
             else if stored = Some ''dark'' then Inr Dark
             else if stored = Some ''system'' then Inr System
             else Inr System)
      else Inr System)"

text \<open>
  The first render of \<open>ThemeProvider\<close>: \<open>theme\<close> from the initialiser,
  \<open>resolvedTheme\<close> from \<^verbatim>\<open>useState<'light' | 'dark'>('light')\<close>; the effect
  has not run yet, so nothing is registered.
\<close>

definition ThemeProvider :: "bool \<Rightarrow> Browser \<Rightarrow> exn + Provider" where
  "ThemeProvider window_defined b =
     (case initialTheme window_defined (localStorage b) of
        Inl e \<Rightarrow> Inl e
      | Inr t \<Rightarrow>
          Inr \<lparr>localStorage = localStorage b, prefersDark = prefersDark b,
               classList = classList b,
               theme = t, resolvedTheme = Light, listeners = []\<rparr>)"

subsection \<open>The effect\<close>

text \<open>
  \<open>updateResolvedTheme\<close> (lines 31-47), a closure over the \<open>theme\<close> of the render
  that created it: it reads the media query only when that theme is \<open>System\<close>, stores
  the result and sets or clears the \<open>dark\<close> class of the root element.
\<close>

definition updateResolvedTheme :: "Theme \<Rightarrow> Provider \<Rightarrow> Provider" where
  "updateResolvedTheme th s =
     (let resolved = (if th = System then (if prefersDark s then Dark else Light) else th);
          s1 = s\<lparr>resolvedTheme := resolved\<rparr>
      in if resolved = Dark
         then s1\<lparr>classList := classList_add ''dark'' (classList s1)\<rparr>
         else s1\<lparr>classList := classList_remove ''dark'' (classList s1)\<rparr>)"

text \<open>\<open>handleChange\<close> (lines 52-56), a closure over the same \<open>theme\<close>.\<close>

definition handleChange :: "Theme \<Rightarrow> Provider \<Rightarrow> Provider" where
  "handleChange th s = (if th = System then updateResolvedTheme th s else s)"

text \<open>
  The effect body (lines 28-58) and the cleanup it returns (line 59), for the render
  whose theme is \<open>th\<close>.
\<close>

definition useEffect_setup :: "Theme \<Rightarrow> Provider \<Rightarrow> Provider" where
  "useEffect_setup th s =
     (let s1 = updateResolvedTheme th s in s1\<lparr>listeners := listeners s1 @ [th]\<rparr>)"

definition useEffect_cleanup :: "Theme \<Rightarrow> Provider \<Rightarrow> Provider" where
  "useEffect_cleanup th s = s\<lparr>listeners := remove1 th (listeners s)\<rparr>"

text \<open>
  A render after a state update. The effect has the dependency list \<^verbatim>\<open>[theme]\<close>:
  when the theme differs from the one of the previous render, the previous cleanup runs
  and then the effect of the new render; otherwise neither runs.
\<close>

definition rerender :: "Theme \<Rightarrow> Provider \<Rightarrow> Provider" where
  "rerender prev s =
     (if theme s = prev then s
      else useEffect_setup (theme s) (useEffect_cleanup prev s))"

text \<open>
  \<open>setTheme\<close> (lines 62-65): the state update is requested first, then the storage is
  written, with no \<open>try\<close> around it. The result is the provider after the render that the
  update causes, and the exception that left \<open>setTheme\<close>, if any. The update was
  requested before the write, so it takes place also when the write throws. The render
  and the effect of an update are taken as one step with the call: no other event is
  delivered between them.
\<close>

definition setTheme :: "Theme \<Rightarrow> Provider \<Rightarrow> Provider \<times> exn option" where
  "setTheme newTheme s =
     (let s1 = s\<lparr>theme := newTheme\<rparr> in
      case setItem (localStorage s) THEME_STORAGE_KEY (literal newTheme) of
        Inl e \<Rightarrow> (rerender (theme s) s1, Some e)
      | Inr st \<Rightarrow> (rerender (theme s) (s1\<lparr>localStorage := st\<rparr>), None))"

text \<open>
  The operating system changes its colour scheme: the media query's \<open>matches\<close> becomes
  \<open>d\<close> and every registered listener is called.
\<close>

definition mediaChange :: "bool \<Rightarrow> Provider \<Rightarrow> Provider" where
  "mediaChange d s = fold handleChange (listeners s) (s\<lparr>prefersDark := d\<rparr>)"

text \<open>The global dark-mode marker: the class \<open>dark\<close> on the root element.\<close>

definition darkMarker :: "Provider \<Rightarrow> bool" where
  "darkMarker s = (''dark'' \<in> set (classList s))"

text \<open>
  The states of a provider: the first render, the first run of the effect (while
  nothing is registered yet), and then any sequence of \<open>setTheme\<close> calls and media-query
  changes.
\<close>

inductive reachable :: "Provider \<Rightarrow> bool" where
  mount: "ThemeProvider w b = Inr s \<Longrightarrow> reachable s"
| effect: "reachable s \<Longrightarrow> listeners s = [] \<Longrightarrow> reachable (useEffect_setup (theme s) s)"
| set_theme: "reachable s \<Longrightarrow> reachable (fst (setTheme p s))"
| media_change: "reachable s \<Longrightarrow> reachable (mediaChange d s)"

subsection \<open>The context and its accessor\<close>

text \<open>
  The value that \<open>ThemeProvider\<close> hands to \<open>ThemeContext.Provider\<close> (line 68).
\<close>

record ThemeContextType =
  ctx_theme :: Theme
  ctx_setTheme :: "Theme \<Rightarrow> Provider \<Rightarrow> Provider \<times> exn option"
  ctx_resolvedTheme :: Theme

definition contextValue :: "Provider \<Rightarrow> ThemeContextType" where
  "contextValue s =
     \<lparr>ctx_theme = theme s, ctx_setTheme = setTheme, ctx_resolvedTheme = resolvedTheme s\<rparr>"

text \<open>
  \<open>useContext(ThemeContext)\<close>: the value of the nearest enclosing provider, and the
  default of \<^verbatim>\<open>createContext<ThemeContextType | undefined>(undefined)\<close> when there
  is none. The argument lists the providers that enclose the caller, nearest first.
\<close>

definition useContext :: "Provider list \<Rightarrow> ThemeContextType option" where
  "useContext enclosing = (case enclosing of [] \<Rightarrow> None | s # _ \<Rightarrow> Some (contextValue s))"

text \<open>\<open>useTheme\<close> (lines 74-80).\<close>

definition useTheme :: "Provider list \<Rightarrow> exn + ThemeContextType" where
  "useTheme enclosing =
     (case useContext enclosing of
        None \<Rightarrow> Inl (Error ''useTheme must be used within a ThemeProvider'')
      | Some context \<Rightarrow> Inr context)"

section \<open>Media embed (pages/Home.tsx)\<close>

text \<open>
  The \<open>Home\<close> page and the players it has created. Objects are identified by numbers:
  \<open>new Artplayer\<close> returns the object \<open>nextPlayer\<close>, which no earlier call returned.
  \<open>live\<close> holds the players constructed and not destroyed, each with its container
  element; \<open>artRef\<close> and \<open>playerRef\<close> are the \<open>current\<close> fields of the two refs.
\<close>

record Home =
  nextPlayer :: nat
  live :: "(nat \<times> nat) list"
  destroyed :: "nat list"
  artRef :: "nat option"
  playerRef :: "nat option"

definition new_Artplayer :: "nat \<Rightarrow> Home \<Rightarrow> nat \<times> Home" where
  "new_Artplayer container h =
     (nextPlayer h,
      h\<lparr>live := live h @ [(nextPlayer h, container)], nextPlayer := Suc (nextPlayer h)\<rparr>)"

definition destroy :: "nat \<Rightarrow> Home \<Rightarrow> Home" where
  "destroy p h =
     h\<lparr>live := filter (\<lambda>(q, c). q \<noteq> p) (live h), destroyed := destroyed h @ [p]\<rparr>"

text \<open>The effect body (lines 39-69) and its cleanup (lines 71-76).\<close>

definition Home_effect :: "Home \<Rightarrow> Home" where
  "Home_effect h =
     (case artRef h of
        None \<Rightarrow> h
      | Some container \<Rightarrow>
          (case playerRef h of
             Some p \<Rightarrow> h
           | None \<Rightarrow> (let (p, h1) = new_Artplayer container h in h1\<lparr>playerRef := Some p\<rparr>)))"

definition Home_cleanup :: "Home \<Rightarrow> Home" where
  "Home_cleanup h =
     (case playerRef h of
        Some p \<Rightarrow> (destroy p h)\<lparr>playerRef := None\<rparr>
      | None \<Rightarrow> h)"

text \<open>
  Mounting renders the container element (lines 324-327, unconditional) and attaches it
  to \<open>artRef\<close>; \<open>playerRef\<close> is a new \<^verbatim>\<open>useRef<Artplayer | null>(null)\<close>. The effect
  runs after that. Unmounting runs the cleanup and detaches \<open>artRef\<close>.
\<close>

definition Home_mount :: "nat \<Rightarrow> Home \<Rightarrow> Home" where
  "Home_mount container h = Home_effect (h\<lparr>artRef := Some container, playerRef := None\<rparr>)"

definition Home_unmount :: "Home \<Rightarrow> Home" where
  "Home_unmount h = (Home_cleanup h)\<lparr>artRef := None\<rparr>"

text \<open>
  The states of the page: nothing mounted at first; the page is mounted only while it is
  not mounted, and unmounted only while it is; while it is mounted the effect and its
  cleanup may run again (as a development build does).
\<close>

inductive page_reachable :: "Home \<Rightarrow> bool" where
  page_start:
    "page_reachable \<lparr>nextPlayer = n, live = [], destroyed = [], artRef = None, playerRef = None\<rparr>"
| page_mount: "page_reachable h \<Longrightarrow> artRef h = None \<Longrightarrow> page_reachable (Home_mount c h)"
| page_effect: "page_reachable h \<Longrightarrow> page_reachable (Home_effect h)"
| page_cleanup: "page_reachable h \<Longrightarrow> page_reachable (Home_cleanup h)"
| page_unmount: "page_reachable h \<Longrightarrow> artRef h \<noteq> None \<Longrightarrow> page_reachable (Home_unmount h)"

text \<open>
  What holds of every state of a provider: the resolved theme is a concrete one, and the
  only listener, if there is one, is the closure of the current render.
\<close>

definition wellformed :: "Provider \<Rightarrow> bool" where
  "wellformed s = (resolvedTheme s \<noteq> System \<and> (listeners s = [] \<or> listeners s = [theme s]))"

text \<open>
  What holds of every state of the page: the only live player, if there is one, is the
  one in \<open>playerRef\<close>, in the container in \<open>artRef\<close>; every player created so far has
  a number below \<open>nextPlayer\<close>.
\<close>

definition page_inv :: "Home \<Rightarrow> bool" where
  "page_inv h =
     ((case playerRef h of
         None \<Rightarrow> live h = []
       | Some p \<Rightarrow> p < nextPlayer h \<and> (\<exists>c. artRef h = Some c \<and> live h = [(p, c)])) \<and>
      (\<forall>q \<in> set (destroyed h). q < nextPlayer h))"

section \<open>Properties of the theme resolver\<close>

subsection \<open>What each operation leaves alone\<close>

lemma classList_add_mem: "t \<in> set (classList_add t cs)"
  by (simp add: classList_add_def)

lemma classList_remove_mem: "t \<notin> set (classList_remove t cs)"
  by (simp add: classList_remove_def)

lemma updateResolvedTheme_keeps [simp]:
  "theme (updateResolvedTheme t s) = theme s"
  "listeners (updateResolvedTheme t s) = listeners s"
  "localStorage (updateResolvedTheme t s) = localStorage s"
  "prefersDark (updateResolvedTheme t s) = prefersDark s"
  by (simp_all add: updateResolvedTheme_def Let_def)

lemma updateResolvedTheme_resolved:
  "resolvedTheme (updateResolvedTheme t s) =
     (if t = System then (if prefersDark s then Dark else Light) else t)"
  by (simp add: updateResolvedTheme_def Let_def)

lemma updateResolvedTheme_not_System: "resolvedTheme (updateResolvedTheme t s) \<noteq> System"
  by (simp add: updateResolvedTheme_resolved)

lemma handleChange_keeps [simp]:
  "theme (handleChange t s) = theme s"
  "listeners (handleChange t s) = listeners s"
  "localStorage (handleChange t s) = localStorage s"
  "prefersDark (handleChange t s) = prefersDark s"
  by (simp_all add: handleChange_def)

lemma handleChange_not_System:
  "resolvedTheme s \<noteq> System \<Longrightarrow> resolvedTheme (handleChange t s) \<noteq> System"
  by (simp add: handleChange_def updateResolvedTheme_not_System)

lemma fold_handleChange_keeps [simp]:
  "theme (fold handleChange ls s) = theme s"
  "listeners (fold handleChange ls s) = listeners s"
  "localStorage (fold handleChange ls s) = localStorage s"
  "prefersDark (fold handleChange ls s) = prefersDark s"
  by (induction ls arbitrary: s; simp)+

lemma fold_handleChange_not_System:
  "resolvedTheme s \<noteq> System \<Longrightarrow> resolvedTheme (fold handleChange ls s) \<noteq> System"
  by (induction ls arbitrary: s) (simp_all add: handleChange_not_System)

lemma fold_handleChange_ignored:
  "System \<notin> set ls \<Longrightarrow> fold handleChange ls s = s"
  by (induction ls arbitrary: s) (auto simp add: handleChange_def)

lemma useEffect_setup_keeps [simp]:
  "theme (useEffect_setup t s) = theme s"
  "listeners (useEffect_setup t s) = listeners s @ [t]"
  "localStorage (useEffect_setup t s) = localStorage s"
  "prefersDark (useEffect_setup t s) = prefersDark s"
  "resolvedTheme (useEffect_setup t s) = resolvedTheme (updateResolvedTheme t s)"
  "classList (useEffect_setup t s) = classList (updateResolvedTheme t s)"
  by (simp_all add: useEffect_setup_def Let_def)

lemma useEffect_cleanup_keeps [simp]:
  "theme (useEffect_cleanup t s) = theme s"
  "listeners (useEffect_cleanup t s) = remove1 t (listeners s)"
  "localStorage (useEffect_cleanup t s) = localStorage s"
  "prefersDark (useEffect_cleanup t s) = prefersDark s"
  "resolvedTheme (useEffect_cleanup t s) = resolvedTheme s"
  "classList (useEffect_cleanup t s) = classList s"
  by (simp_all add: useEffect_cleanup_def)

lemma rerender_theme [simp]: "theme (rerender prev s) = theme s"
  by (simp add: rerender_def)

lemma rerender_localStorage [simp]: "localStorage (rerender prev s) = localStorage s"
  by (simp add: rerender_def)

lemma rerender_not_System:
  "resolvedTheme s \<noteq> System \<Longrightarrow> resolvedTheme (rerender prev s) \<noteq> System"
  by (simp add: rerender_def updateResolvedTheme_not_System)

lemma rerender_listeners:
  "listeners (rerender prev s) =
     (if theme s = prev then listeners s else remove1 prev (listeners s) @ [theme s])"
  by (simp add: rerender_def)

lemma setTheme_theme: "theme (fst (setTheme p s)) = p"
  by (simp add: setTheme_def Let_def split: sum.split)

lemma setTheme_not_System:
  "resolvedTheme s \<noteq> System \<Longrightarrow> resolvedTheme (fst (setTheme p s)) \<noteq> System"
  by (simp add: setTheme_def Let_def rerender_not_System split: sum.split)

lemma setTheme_listeners:
  "listeners (fst (setTheme p s)) =
     (if p = theme s then listeners s else remove1 (theme s) (listeners s) @ [p])"
  by (simp add: setTheme_def Let_def rerender_listeners split: sum.split)

lemma mediaChange_keeps [simp]:
  "theme (mediaChange d s) = theme s"
  "listeners (mediaChange d s) = listeners s"
  "localStorage (mediaChange d s) = localStorage s"
  "prefersDark (mediaChange d s) = d"
  by (simp_all add: mediaChange_def)

lemma mediaChange_not_System:
  "resolvedTheme s \<noteq> System \<Longrightarrow> resolvedTheme (mediaChange d s) \<noteq> System"
  by (simp add: mediaChange_def fold_handleChange_not_System)

lemma ThemeProvider_fields:
  "ThemeProvider w b = Inr s \<Longrightarrow> resolvedTheme s = Light \<and> listeners s = []"
  by (auto simp add: ThemeProvider_def split: sum.splits)

lemma reachable_wellformed: "reachable s \<Longrightarrow> wellformed s"
proof (induction rule: reachable.induct)
  case (mount w b s)
  then show ?case by (simp add: wellformed_def ThemeProvider_fields)
next
  case (effect s)
  then show ?case by (simp add: wellformed_def updateResolvedTheme_not_System)
next
  case (set_theme s p)
  then show ?case
    by (auto simp add: wellformed_def setTheme_not_System setTheme_theme setTheme_listeners)
next
  case (media_change s d)
  then show ?case by (simp add: wellformed_def mediaChange_not_System)
qed

lemma getItem_ok: "getFault st = None \<Longrightarrow> getItem st k = Inr (map_of (entries st) k)"
  by (simp add: getItem_def)

lemma literal_cases: "literal p = ''light'' \<or> literal p = ''dark'' \<or> literal p = ''system''"
  by (cases p) simp_all

lemma literal_inj: "literal p = literal q \<Longrightarrow> p = q"
  by (cases p; cases q; simp)

lemma initialTheme_literal:
  "getItem st THEME_STORAGE_KEY = Inr (Some (literal p)) \<Longrightarrow> initialTheme True st = Inr p"
  by (cases p) (simp_all add: initialTheme_def)

lemma initialTheme_other:
  "getItem st THEME_STORAGE_KEY = Inr stored \<Longrightarrow> \<forall>p. stored \<noteq> Some (literal p) \<Longrightarrow>
     initialTheme True st = Inr System"
proof -
  assume g: "getItem st THEME_STORAGE_KEY = Inr stored" and n: "\<forall>p. stored \<noteq> Some (literal p)"
  from n have "stored \<noteq> Some (literal Light)" "stored \<noteq> Some (literal Dark)" by blast+
  with g show ?thesis by (simp add: initialTheme_def)
qed

lemma ThemeProvider_theme:
  "initialTheme w (localStorage b) = Inr t \<Longrightarrow>
     \<exists>s. ThemeProvider w b = Inr s \<and> theme s = t"
  by (simp add: ThemeProvider_def)

lemma classList_add_idem: "classList_add t (classList_add t cs) = classList_add t cs"
  by (simp add: classList_add_def)

lemma classList_remove_idem: "classList_remove t (classList_remove t cs) = classList_remove t cs"
  by (simp add: classList_remove_def)

subsection \<open>Resolution\<close>

text \<open>
  C1. For every preference, \<open>updateResolvedTheme\<close> stores the preference itself when it
  is \<open>Light\<close> or \<open>Dark\<close>, and for \<open>System\<close> it stores \<open>Dark\<close> when the media query
  matches at that moment and \<open>Light\<close> otherwise; the dark marker is set exactly when
  the stored value is \<open>Dark\<close>.
\<close>

theorem resolve_computes:
  "resolvedTheme (updateResolvedTheme Light s) = Light \<and>
   resolvedTheme (updateResolvedTheme Dark s) = Dark \<and>
   resolvedTheme (updateResolvedTheme System s) = (if prefersDark s then Dark else Light) \<and>
   darkMarker (updateResolvedTheme th s) = (resolvedTheme (updateResolvedTheme th s) = Dark)"
  by (simp add: updateResolvedTheme_def darkMarker_def Let_def
      classList_add_mem classList_remove_mem)

text \<open>
  C8. Resolution is idempotent: with the preference and the media query unchanged, a
  second \<open>updateResolvedTheme\<close> right after the first leaves the whole state, and so the
  resolved theme, as the first left it.
\<close>

theorem resolve_idempotent:
  "updateResolvedTheme th (updateResolvedTheme th s) = updateResolvedTheme th s \<and>
   resolvedTheme (updateResolvedTheme th (updateResolvedTheme th s))
     = resolvedTheme (updateResolvedTheme th s)"
  by (simp add: updateResolvedTheme_def Let_def classList_add_idem classList_remove_idem)

subsection \<open>Invariants of the provider\<close>

text \<open>
  C6. In every state of a provider the resolved theme is \<open>Light\<close> or \<open>Dark\<close>, and from
  such a state neither a resolution (for any preference), nor \<open>setTheme\<close>, nor a
  media-query change makes it \<open>System\<close>.
\<close>

theorem resolved_never_System:
  "reachable s \<Longrightarrow>
     (resolvedTheme s = Light \<or> resolvedTheme s = Dark) \<and>
     resolvedTheme (updateResolvedTheme t s) \<noteq> System \<and>
     resolvedTheme (fst (setTheme p s)) \<noteq> System \<and>
     resolvedTheme (mediaChange d s) \<noteq> System"
proof -
  assume r: "reachable s"
  then have ns: "resolvedTheme s \<noteq> System"
    using reachable_wellformed by (simp add: wellformed_def)
  then have "resolvedTheme s = Light \<or> resolvedTheme s = Dark"
    by (cases "resolvedTheme s") simp_all
  with ns show ?thesis
    by (simp add: updateResolvedTheme_not_System setTheme_not_System mediaChange_not_System)
qed

text \<open>
  Witness: nothing stored, the system prefers dark; the state after the first run of
  the effect.
\<close>

theorem resolved_never_System_witness:
  "reachable (useEffect_setup System
      \<lparr>localStorage = \<lparr>entries = [], getFault = None, setFault = None\<rparr>,
       prefersDark = True, classList = [],
       theme = System, resolvedTheme = Light, listeners = []\<rparr>) \<and>
   ((resolvedTheme (useEffect_setup System
      \<lparr>localStorage = \<lparr>entries = [], getFault = None, setFault = None\<rparr>,
       prefersDark = True, classList = [],
       theme = System, resolvedTheme = Light, listeners = []\<rparr>) = Light \<or>
    resolvedTheme (useEffect_setup System
      \<lparr>localStorage = \<lparr>entries = [], getFault = None, setFault = None\<rparr>,
       prefersDark = True, classList = [],
       theme = System, resolvedTheme = Light, listeners = []\<rparr>) = Dark) \<and>
   resolvedTheme (updateResolvedTheme System (useEffect_setup System
      \<lparr>localStorage = \<lparr>entries = [], getFault = None, setFault = None\<rparr>,
       prefersDark = True, classList = [],
       theme = System, resolvedTheme = Light, listeners = []\<rparr>)) \<noteq> System \<and>
   resolvedTheme (fst (setTheme Light (useEffect_setup System
      \<lparr>localStorage = \<lparr>entries = [], getFault = None, setFault = None\<rparr>,
       prefersDark = True, classList = [],
       theme = System, resolvedTheme = Light, listeners = []\<rparr>))) \<noteq> System \<and>
   resolvedTheme (mediaChange False (useEffect_setup System
      \<lparr>localStorage = \<lparr>entries = [], getFault = None, setFault = None\<rparr>,
       prefersDark = True, classList = [],
       theme = System, resolvedTheme = Light, listeners = []\<rparr>)) \<noteq> System)"
proof -
  let ?b = "\<lparr>localStorage = \<lparr>entries = [], getFault = None, setFault = None\<rparr>,
       prefersDark = True, classList = []\<rparr>"
  let ?s0 = "\<lparr>localStorage = \<lparr>entries = [], getFault = None, setFault = None\<rparr>,
       prefersDark = True, classList = [],
       theme = System, resolvedTheme = Light, listeners = []\<rparr>"
  have "ThemeProvider True ?b = Inr ?s0"
    by (simp add: ThemeProvider_def initialTheme_def getItem_def)
  then have r0: "reachable ?s0" by (rule reachable.mount)
  have "reachable (useEffect_setup (theme ?s0) ?s0)"
    using r0 by (rule reachable.effect) simp
  then have r1: "reachable (useEffect_setup System ?s0)" by simp
  show ?thesis
    by (rule conjI [OF r1 resolved_never_System [OF r1, of System Light False]])
qed

text \<open>
  C2. In every state of a provider whose preference is \<open>Light\<close> or \<open>Dark\<close>, a
  media-query change only records the new value of the query: the listener returns
  without resolving, and the resolved theme, the class list and the dark marker stay as
  they were.
\<close>

theorem os_change_ignored:
  "reachable s \<Longrightarrow> theme s = Light \<or> theme s = Dark \<Longrightarrow>
     mediaChange d s = s\<lparr>prefersDark := d\<rparr> \<and>
     resolvedTheme (mediaChange d s) = resolvedTheme s \<and>
     classList (mediaChange d s) = classList s \<and>
     darkMarker (mediaChange d s) = darkMarker s \<and>
     handleChange (theme s) s = s"
proof -
  assume r: "reachable s" and t: "theme s = Light \<or> theme s = Dark"
  from r have "listeners s = [] \<or> listeners s = [theme s]"
    using reachable_wellformed by (simp add: wellformed_def)
  with t have "System \<notin> set (listeners s)" by auto
  then have m: "mediaChange d s = s\<lparr>prefersDark := d\<rparr>"
    by (simp add: mediaChange_def fold_handleChange_ignored)
  from t have "handleChange (theme s) s = s" by (auto simp add: handleChange_def)
  with m show ?thesis by (simp add: darkMarker_def)
qed

text \<open>
  Witness: \<open>light\<close> is stored and the system prefers light; after the first run of the
  effect the system switches to dark.
\<close>

theorem os_change_ignored_witness:
  "reachable (useEffect_setup Light
      \<lparr>localStorage =
         \<lparr>entries = [(THEME_STORAGE_KEY, ''light'')], getFault = None, setFault = None\<rparr>,
       prefersDark = False, classList = [],
       theme = Light, resolvedTheme = Light, listeners = []\<rparr>) \<and>
   theme (useEffect_setup Light
      \<lparr>localStorage =
         \<lparr>entries = [(THEME_STORAGE_KEY, ''light'')], getFault = None, setFault = None\<rparr>,
       prefersDark = False, classList = [],
       theme = Light, resolvedTheme = Light, listeners = []\<rparr>) = Light \<and>
   resolvedTheme (mediaChange True (useEffect_setup Light
      \<lparr>localStorage =
         \<lparr>entries = [(THEME_STORAGE_KEY, ''light'')], getFault = None, setFault = None\<rparr>,
       prefersDark = False, classList = [],
       theme = Light, resolvedTheme = Light, listeners = []\<rparr>)) = Light \<and>
   \<not> darkMarker (mediaChange True (useEffect_setup Light
      \<lparr>localStorage =
         \<lparr>entries = [(THEME_STORAGE_KEY, ''light'')], getFault = None, setFault = None\<rparr>,
       prefersDark = False, classList = [],
       theme = Light, resolvedTheme = Light, listeners = []\<rparr>))"
proof -
  let ?st = "\<lparr>entries = [(THEME_STORAGE_KEY, ''light'')], getFault = None, setFault = None\<rparr>"
  let ?b = "\<lparr>localStorage = ?st, prefersDark = False, classList = []\<rparr>"
  let ?s0 = "\<lparr>localStorage = ?st, prefersDark = False, classList = [],
       theme = Light, resolvedTheme = Light, listeners = []\<rparr>"
  let ?s1 = "useEffect_setup Light ?s0"
  have "ThemeProvider True ?b = Inr ?s0"
    by (simp add: ThemeProvider_def initialTheme_def getItem_def)
  then have r0: "reachable ?s0" by (rule reachable.mount)
  have "reachable (useEffect_setup (theme ?s0) ?s0)"
    using r0 by (rule reachable.effect) simp
  then have r1: "reachable ?s1" by simp
  have t: "theme ?s1 = Light" by simp
  then have t': "theme ?s1 = Light \<or> theme ?s1 = Dark" by (rule disjI1)
  note c = os_change_ignored [OF r1 t', of True]
  have res: "resolvedTheme ?s1 = Light"
    by (simp add: updateResolvedTheme_resolved)
  have mark: "\<not> darkMarker ?s1"
    by (simp add: darkMarker_def updateResolvedTheme_def Let_def classList_remove_def)
  note e1 = c [THEN conjunct2, THEN conjunct1]
  note e2 = c [THEN conjunct2, THEN conjunct2, THEN conjunct2, THEN conjunct1]
  from e1 res have 1: "resolvedTheme (mediaChange True ?s1) = Light" by (rule trans)
  have 2: "\<not> darkMarker (mediaChange True ?s1)" unfolding e2 by (rule mark)
  from r1 t 1 2 show ?thesis by (intro conjI)
qed

subsection \<open>Initialisation and persistence\<close>

text \<open>
  C4. In a browser, when the storage answers the read of the theme key with \<open>stored\<close>
  (a string or \<open>null\<close>), the first render succeeds, and its preference is the stored
  value when that is the literal of one of the three themes, and \<open>System\<close> when it is
  absent or any other string.
\<close>

theorem initial_preference:
  "getItem (localStorage b) THEME_STORAGE_KEY = Inr stored \<Longrightarrow>
     \<exists>s. ThemeProvider True b = Inr s \<and>
         (\<forall>p. stored = Some (literal p) \<longrightarrow> theme s = p) \<and>
         ((\<forall>p. stored \<noteq> Some (literal p)) \<longrightarrow> theme s = System)"
proof -
  assume g: "getItem (localStorage b) THEME_STORAGE_KEY = Inr stored"
  show ?thesis
  proof (cases "\<exists>p. stored = Some (literal p)")
    case True
    then obtain p where p: "stored = Some (literal p)" ..
    with g have "initialTheme True (localStorage b) = Inr p"
      by (simp add: initialTheme_literal)
    then obtain s where s: "ThemeProvider True b = Inr s" and t: "theme s = p"
      using ThemeProvider_theme by blast
    have a: "\<forall>q. stored = Some (literal q) \<longrightarrow> theme s = q"
    proof (intro allI impI)
      fix q
      assume "stored = Some (literal q)"
      with p have "literal p = literal q" by simp
      then have "p = q" by (rule literal_inj)
      with t show "theme s = q" by simp
    qed
    have b: "(\<forall>q. stored \<noteq> Some (literal q)) \<longrightarrow> theme s = System"
      using True by blast
    from s a b show ?thesis by blast
  next
    case False
    with g have "initialTheme True (localStorage b) = Inr System"
      by (simp add: initialTheme_other)
    then obtain s where s: "ThemeProvider True b = Inr s" and t: "theme s = System"
      using ThemeProvider_theme by blast
    have a: "\<forall>q. stored = Some (literal q) \<longrightarrow> theme s = q"
      using False by blast
    from s a t show ?thesis by blast
  qed
qed

text \<open>
  Witness: the stored value \<open>dark\<close> gives \<open>Dark\<close>; the stored value \<open>Dark\<close>, which is
  none of the three literals, gives \<open>System\<close>.
\<close>

theorem initial_preference_witness:
  "getItem (localStorage
      \<lparr>localStorage =
         \<lparr>entries = [(THEME_STORAGE_KEY, ''dark'')], getFault = None, setFault = None\<rparr>,
       prefersDark = False, classList = []\<rparr>) THEME_STORAGE_KEY = Inr (Some ''dark'') \<and>
   ThemeProvider True
      \<lparr>localStorage =
         \<lparr>entries = [(THEME_STORAGE_KEY, ''dark'')], getFault = None, setFault = None\<rparr>,
       prefersDark = False, classList = []\<rparr>
     = Inr \<lparr>localStorage =
         \<lparr>entries = [(THEME_STORAGE_KEY, ''dark'')], getFault = None, setFault = None\<rparr>,
       prefersDark = False, classList = [],
       theme = Dark, resolvedTheme = Light, listeners = []\<rparr> \<and>
   getItem (localStorage
      \<lparr>localStorage =
         \<lparr>entries = [(THEME_STORAGE_KEY, ''Dark'')], getFault = None, setFault = None\<rparr>,
       prefersDark = False, classList = []\<rparr>) THEME_STORAGE_KEY = Inr (Some ''Dark'') \<and>
   ThemeProvider True
      \<lparr>localStorage =
         \<lparr>entries = [(THEME_STORAGE_KEY, ''Dark'')], getFault = None, setFault = None\<rparr>,
       prefersDark = False, classList = []\<rparr>
     = Inr \<lparr>localStorage =
         \<lparr>entries = [(THEME_STORAGE_KEY, ''Dark'')], getFault = None, setFault = None\<rparr>,
       prefersDark = False, classList = [],
       theme = System, resolvedTheme = Light, listeners = []\<rparr>"
proof -
  let ?b1 = "\<lparr>localStorage =
         \<lparr>entries = [(THEME_STORAGE_KEY, ''dark'')], getFault = None, setFault = None\<rparr>,
       prefersDark = False, classList = []\<rparr>"
  let ?b2 = "\<lparr>localStorage =
         \<lparr>entries = [(THEME_STORAGE_KEY, ''Dark'')], getFault = None, setFault = None\<rparr>,
       prefersDark = False, classList = []\<rparr>"
  have g1: "getItem (localStorage ?b1) THEME_STORAGE_KEY = Inr (Some ''dark'')"
    by (simp add: getItem_def)
  have g2: "getItem (localStorage ?b2) THEME_STORAGE_KEY = Inr (Some ''Dark'')"
    by (simp add: getItem_def)
  from initial_preference [OF g1]
  obtain s1 where s1: "ThemeProvider True ?b1 = Inr s1"
    and a1: "\<forall>p. Some ''dark'' = Some (literal p) \<longrightarrow> theme s1 = p"
    by (elim exE conjE) (rule that)
  from a1 [rule_format, of Dark] have t1: "theme s1 = Dark" by simp
  from initial_preference [OF g2]
  obtain s2 where s2: "ThemeProvider True ?b2 = Inr s2"
    and a2: "(\<forall>p. Some ''Dark'' \<noteq> Some (literal p)) \<longrightarrow> theme s2 = System"
    by (elim exE conjE) (rule that)
  have "\<forall>p. Some ''Dark'' \<noteq> Some (literal p)"
  proof
    fix p
    show "Some ''Dark'' \<noteq> Some (literal p)" by (cases p) simp_all
  qed
  with a2 have t2: "theme s2 = System" by (rule mp)
  from s1 t1 have e1: "ThemeProvider True ?b1 = Inr \<lparr>localStorage =
         \<lparr>entries = [(THEME_STORAGE_KEY, ''dark'')], getFault = None, setFault = None\<rparr>,
       prefersDark = False, classList = [],
       theme = Dark, resolvedTheme = Light, listeners = []\<rparr>"
    by (auto simp add: ThemeProvider_def split: sum.splits)
  from s2 t2 have e2: "ThemeProvider True ?b2 = Inr \<lparr>localStorage =
         \<lparr>entries = [(THEME_STORAGE_KEY, ''Dark'')], getFault = None, setFault = None\<rparr>,
       prefersDark = False, classList = [],
       theme = System, resolvedTheme = Light, listeners = []\<rparr>"
    by (auto simp add: ThemeProvider_def split: sum.splits)
  from g1 e1 g2 e2 show ?thesis by (intro conjI)
qed

text \<open>
  C3, as the code has it. A storage exception is not caught. When the read of the theme
  key throws, the first render throws the same exception. When the write throws,
  \<open>setTheme\<close> throws the same exception; the in-memory preference has then already
  been set to the new value, and the storage keeps what it held. When the accessor does
  not throw, the first render and \<open>setTheme\<close> complete.
\<close>

theorem storage_error_propagates:
  "(getItem (localStorage b) THEME_STORAGE_KEY = Inl e \<longrightarrow> ThemeProvider True b = Inl e) \<and>
   (setItem (localStorage s) THEME_STORAGE_KEY (literal p) = Inl e \<longrightarrow>
      snd (setTheme p s) = Some e \<and> theme (fst (setTheme p s)) = p \<and>
      localStorage (fst (setTheme p s)) = localStorage s) \<and>
   (getFault (localStorage b) = None \<longrightarrow> (\<exists>s'. ThemeProvider True b = Inr s')) \<and>
   (setFault (localStorage s) = None \<longrightarrow> snd (setTheme p s) = None)"
proof (intro conjI impI)
  assume "getItem (localStorage b) THEME_STORAGE_KEY = Inl e"
  then show "ThemeProvider True b = Inl e"
    by (simp add: ThemeProvider_def initialTheme_def)
next
  assume a: "setItem (localStorage s) THEME_STORAGE_KEY (literal p) = Inl e"
  then show "snd (setTheme p s) = Some e" by (simp add: setTheme_def Let_def)
  show "theme (fst (setTheme p s)) = p" by (rule setTheme_theme)
  from a show "localStorage (fst (setTheme p s)) = localStorage s"
    by (simp add: setTheme_def Let_def)
next
  assume "getFault (localStorage b) = None"
  then show "\<exists>s'. ThemeProvider True b = Inr s'"
    by (simp add: ThemeProvider_def initialTheme_def getItem_def)
next
  assume "setFault (localStorage s) = None"
  then show "snd (setTheme p s) = None"
    by (simp add: setTheme_def setItem_def Let_def)
qed

text \<open>
  C3, as the specification states it, fails: with a storage that denies access the
  first render throws, and with a full storage \<open>setTheme\<close> throws.
\<close>

theorem storage_error_not_caught:
  "ThemeProvider True
      \<lparr>localStorage =
         \<lparr>entries = [], getFault = Some (DOMException ''SecurityError''),
          setFault = Some (DOMException ''SecurityError'')\<rparr>,
       prefersDark = False, classList = []\<rparr>
     = Inl (DOMException ''SecurityError'') \<and>
   snd (setTheme Dark
      \<lparr>localStorage =
         \<lparr>entries = [], getFault = None,
          setFault = Some (DOMException ''QuotaExceededError'')\<rparr>,
       prefersDark = False, classList = [],
       theme = System, resolvedTheme = Light, listeners = [System]\<rparr>)
     = Some (DOMException ''QuotaExceededError'')"
  by (simp add: ThemeProvider_def initialTheme_def getItem_def setTheme_def setItem_def Let_def)

text \<open>
  Witness: the two storages above, where the accessors throw, and a storage where
  they do not.
\<close>

theorem storage_error_propagates_witness:
  "getItem (localStorage
      \<lparr>localStorage =
         \<lparr>entries = [], getFault = Some (DOMException ''SecurityError''),
          setFault = Some (DOMException ''SecurityError'')\<rparr>,
       prefersDark = False, classList = []\<rparr>) THEME_STORAGE_KEY
     = Inl (DOMException ''SecurityError'') \<and>
   ThemeProvider True
      \<lparr>localStorage =
         \<lparr>entries = [], getFault = Some (DOMException ''SecurityError''),
          setFault = Some (DOMException ''SecurityError'')\<rparr>,
       prefersDark = False, classList = []\<rparr>
     = Inl (DOMException ''SecurityError'') \<and>
   setItem (localStorage
      \<lparr>localStorage =
         \<lparr>entries = [], getFault = None,
          setFault = Some (DOMException ''QuotaExceededError'')\<rparr>,
       prefersDark = False, classList = [],
       theme = System, resolvedTheme = Light, listeners = [System]\<rparr>)
     THEME_STORAGE_KEY (literal Dark) = Inl (DOMException ''QuotaExceededError'') \<and>
   snd (setTheme Dark
      \<lparr>localStorage =
         \<lparr>entries = [], getFault = None,
          setFault = Some (DOMException ''QuotaExceededError'')\<rparr>,
       prefersDark = False, classList = [],
       theme = System, resolvedTheme = Light, listeners = [System]\<rparr>)
     = Some (DOMException ''QuotaExceededError'') \<and>
   theme (fst (setTheme Dark
      \<lparr>localStorage =
         \<lparr>entries = [], getFault = None,
          setFault = Some (DOMException ''QuotaExceededError'')\<rparr>,
       prefersDark = False, classList = [],
       theme = System, resolvedTheme = Light, listeners = [System]\<rparr>)) = Dark \<and>
   getFault (localStorage
      \<lparr>localStorage = \<lparr>entries = [], getFault = None, setFault = None\<rparr>,
       prefersDark = False, classList = []\<rparr>) = None \<and>
   (\<exists>s'. ThemeProvider True
      \<lparr>localStorage = \<lparr>entries = [], getFault = None, setFault = None\<rparr>,
       prefersDark = False, classList = []\<rparr> = Inr s') \<and>
   setFault (localStorage
      \<lparr>localStorage = \<lparr>entries = [], getFault = None, setFault = None\<rparr>,
       prefersDark = False, classList = [],
       theme = System, resolvedTheme = Light, listeners = [System]\<rparr>) = None \<and>
   snd (setTheme Dark
      \<lparr>localStorage = \<lparr>entries = [], getFault = None, setFault = None\<rparr>,
       prefersDark = False, classList = [],
       theme = System, resolvedTheme = Light, listeners = [System]\<rparr>) = None"
proof -
  let ?bad = "\<lparr>localStorage =
         \<lparr>entries = [], getFault = Some (DOMException ''SecurityError''),
          setFault = Some (DOMException ''SecurityError'')\<rparr>,
       prefersDark = False, classList = []\<rparr>"
  let ?full = "\<lparr>localStorage =
         \<lparr>entries = [], getFault = None,
          setFault = Some (DOMException ''QuotaExceededError'')\<rparr>,
       prefersDark = False, classList = [],
       theme = System, resolvedTheme = Light, listeners = [System]\<rparr>"
  let ?b = "\<lparr>localStorage = \<lparr>entries = [], getFault = None, setFault = None\<rparr>,
       prefersDark = False, classList = []\<rparr>"
  let ?s = "\<lparr>localStorage = \<lparr>entries = [], getFault = None, setFault = None\<rparr>,
       prefersDark = False, classList = [],
       theme = System, resolvedTheme = Light, listeners = [System]\<rparr>"
  note bad = storage_error_propagates
    [of ?bad "DOMException ''SecurityError''" ?full Dark]
  note full = storage_error_propagates
    [of ?b "DOMException ''QuotaExceededError''" ?full Dark]
  note ok = storage_error_propagates [of ?b "DOMException ''SecurityError''" ?s Dark]
  have h1: "getItem (localStorage ?bad) THEME_STORAGE_KEY = Inl (DOMException ''SecurityError'')"
    by (simp add: getItem_def)
  have h2: "setItem (localStorage ?full) THEME_STORAGE_KEY (literal Dark)
      = Inl (DOMException ''QuotaExceededError'')"
    by (simp add: setItem_def)
  have h3: "getFault (localStorage ?b) = None" by simp
  have h4: "setFault (localStorage ?s) = None" by simp
  from bad h1 have c1: "ThemeProvider True ?bad = Inl (DOMException ''SecurityError'')"
    by (elim conjE) (erule mp)
  from full h2 have c2: "snd (setTheme Dark ?full) = Some (DOMException ''QuotaExceededError'') \<and>
      theme (fst (setTheme Dark ?full)) = Dark \<and>
      localStorage (fst (setTheme Dark ?full)) = localStorage ?full"
    by (elim conjE) (erule mp)
  from ok h3 have c3: "\<exists>s'. ThemeProvider True ?b = Inr s'"
    by (elim conjE) (erule mp)
  from ok h4 have c4: "snd (setTheme Dark ?s) = None"
    by (elim conjE) (erule mp)
  note c2a = c2 [THEN conjunct1]
  note c2b = c2 [THEN conjunct2, THEN conjunct1]
  from h1 c1 h2 c2a c2b h3 c3 h4 c4 show ?thesis by (intro conjI)
qed

text \<open>
  C5. For every theme \<open>p\<close>, after \<open>setTheme p\<close> the in-memory preference is \<open>p\<close>, and
  the string written for it is one of \<open>light\<close>, \<open>dark\<close>, \<open>system\<close>. When the storage
  accepts the write and answers the read, \<open>setTheme p\<close> returns normally, the value
  read back under the theme key is the literal of \<open>p\<close>, and an initialisation from
  that storage yields \<open>p\<close> again.
\<close>

theorem setTheme_persists:
  "theme (fst (setTheme p s)) = p \<and>
   literal p \<in> {''light'', ''dark'', ''system''} \<and>
   (setFault (localStorage s) = None \<and> getFault (localStorage s) = None \<longrightarrow>
      snd (setTheme p s) = None \<and>
      getItem (localStorage (fst (setTheme p s))) THEME_STORAGE_KEY = Inr (Some (literal p)) \<and>
      initialTheme True (localStorage (fst (setTheme p s))) = Inr p)"
proof (intro conjI impI)
  show "theme (fst (setTheme p s)) = p" by (rule setTheme_theme)
  show "literal p \<in> {''light'', ''dark'', ''system''}"
    using literal_cases [of p] by auto
next
  assume h: "setFault (localStorage s) = None \<and> getFault (localStorage s) = None"
  then have w: "setFault (localStorage s) = None" and r: "getFault (localStorage s) = None"
    by simp_all
  show "snd (setTheme p s) = None"
    using w by (simp add: setTheme_def setItem_def Let_def)
  have st: "localStorage (fst (setTheme p s)) =
      (localStorage s)\<lparr>entries :=
         AList.update THEME_STORAGE_KEY (literal p) (entries (localStorage s))\<rparr>"
    using w by (simp add: setTheme_def setItem_def Let_def)
  with r show g: "getItem (localStorage (fst (setTheme p s))) THEME_STORAGE_KEY
      = Inr (Some (literal p))"
    by (simp add: getItem_def update_conv')
  from g show "initialTheme True (localStorage (fst (setTheme p s))) = Inr p"
    by (rule initialTheme_literal)
qed

text \<open>
  Witness: the preference is \<open>System\<close>, and \<open>system\<close> is stored; \<open>setTheme Dark\<close>.
\<close>

theorem setTheme_persists_witness:
  "setFault (localStorage
      \<lparr>localStorage =
         \<lparr>entries = [(THEME_STORAGE_KEY, ''system'')], getFault = None, setFault = None\<rparr>,
       prefersDark = False, classList = [],
       theme = System, resolvedTheme = Light, listeners = [System]\<rparr>) = None \<and>
   getFault (localStorage
      \<lparr>localStorage =
         \<lparr>entries = [(THEME_STORAGE_KEY, ''system'')], getFault = None, setFault = None\<rparr>,
       prefersDark = False, classList = [],
       theme = System, resolvedTheme = Light, listeners = [System]\<rparr>) = None \<and>
   theme (fst (setTheme Dark
      \<lparr>localStorage =
         \<lparr>entries = [(THEME_STORAGE_KEY, ''system'')], getFault = None, setFault = None\<rparr>,
       prefersDark = False, classList = [],
       theme = System, resolvedTheme = Light, listeners = [System]\<rparr>)) = Dark \<and>
   snd (setTheme Dark
      \<lparr>localStorage =
         \<lparr>entries = [(THEME_STORAGE_KEY, ''system'')], getFault = None, setFault = None\<rparr>,
       prefersDark = False, classList = [],
       theme = System, resolvedTheme = Light, listeners = [System]\<rparr>) = None \<and>
   getItem (localStorage (fst (setTheme Dark
      \<lparr>localStorage =
         \<lparr>entries = [(THEME_STORAGE_KEY, ''system'')], getFault = None, setFault = None\<rparr>,
       prefersDark = False, classList = [],
       theme = System, resolvedTheme = Light, listeners = [System]\<rparr>))) THEME_STORAGE_KEY
     = Inr (Some ''dark'') \<and>
   initialTheme True (localStorage (fst (setTheme Dark
      \<lparr>localStorage =
         \<lparr>entries = [(THEME_STORAGE_KEY, ''system'')], getFault = None, setFault = None\<rparr>,
       prefersDark = False, classList = [],
       theme = System, resolvedTheme = Light, listeners = [System]\<rparr>))) = Inr Dark"
proof -
  let ?s = "\<lparr>localStorage =
         \<lparr>entries = [(THEME_STORAGE_KEY, ''system'')], getFault = None, setFault = None\<rparr>,
       prefersDark = False, classList = [],
       theme = System, resolvedTheme = Light, listeners = [System]\<rparr>"
  have w: "setFault (localStorage ?s) = None" by simp
  have r: "getFault (localStorage ?s) = None" by simp
  note c = setTheme_persists [of Dark ?s]
  note 1 = c [THEN conjunct1]
  from c [THEN conjunct2, THEN conjunct2] conjI [OF w r]
  have d: "snd (setTheme Dark ?s) = None \<and>
      getItem (localStorage (fst (setTheme Dark ?s))) THEME_STORAGE_KEY
        = Inr (Some (literal Dark)) \<and>
      initialTheme True (localStorage (fst (setTheme Dark ?s))) = Inr Dark"
    by (rule mp)
  note 2 = d [THEN conjunct1]
  from d [THEN conjunct2, THEN conjunct1]
  have 3: "getItem (localStorage (fst (setTheme Dark ?s))) THEME_STORAGE_KEY
      = Inr (Some ''dark'')"
    by simp
  note 4 = d [THEN conjunct2, THEN conjunct2]
  from w r 1 2 3 4 show ?thesis by (intro conjI)
qed

subsection \<open>The first render and the accessor\<close>

text \<open>
  C9. After the first render, before the effect has run, the resolved theme that the
  provider exposes is \<open>Light\<close>, whatever is stored and whatever the system prefers. In
  particular there is a browser where \<open>dark\<close> is stored and the system prefers dark,
  and a consumer of the context still reads \<open>Light\<close>.
\<close>

theorem first_render_Light:
  "(ThemeProvider w b = Inr s \<longrightarrow>
      resolvedTheme s = Light \<and> ctx_resolvedTheme (contextValue s) = Light) \<and>
   (\<exists>b' s'. ThemeProvider True b' = Inr s' \<and> prefersDark s' \<and> theme s' = Dark \<and>
      getItem (localStorage b') THEME_STORAGE_KEY = Inr (Some ''dark'') \<and>
      useTheme [s'] = Inr (contextValue s') \<and> ctx_resolvedTheme (contextValue s') = Light)"
proof (intro conjI impI)
  assume a: "ThemeProvider w b = Inr s"
  then show "resolvedTheme s = Light" by (simp add: ThemeProvider_fields)
  with a show "ctx_resolvedTheme (contextValue s) = Light" by (simp add: contextValue_def)
next
  let ?st = "\<lparr>entries = [(THEME_STORAGE_KEY, ''dark'')], getFault = None, setFault = None\<rparr>"
  let ?b = "\<lparr>localStorage = ?st, prefersDark = True, classList = []\<rparr>"
  let ?s = "\<lparr>localStorage = ?st, prefersDark = True, classList = [],
             theme = Dark, resolvedTheme = Light, listeners = []\<rparr>"
  have 1: "ThemeProvider True ?b = Inr ?s"
    by (simp add: ThemeProvider_def initialTheme_def getItem_def)
  have 2: "getItem (localStorage ?b) THEME_STORAGE_KEY = Inr (Some ''dark'')"
    by (simp add: getItem_def)
  have 3: "useTheme [?s] = Inr (contextValue ?s)"
    by (simp add: useTheme_def useContext_def)
  have 4: "ctx_resolvedTheme (contextValue ?s) = Light"
    by (simp add: contextValue_def)
  have 5: "prefersDark ?s" and 6: "theme ?s = Dark" by simp_all
  show "\<exists>b' s'. ThemeProvider True b' = Inr s' \<and> prefersDark s' \<and> theme s' = Dark \<and>
      getItem (localStorage b') THEME_STORAGE_KEY = Inr (Some ''dark'') \<and>
      useTheme [s'] = Inr (contextValue s') \<and> ctx_resolvedTheme (contextValue s') = Light"
    using 1 2 3 4 5 6 by (intro exI conjI)
qed

text \<open>
  Witness: \<open>dark\<close> is stored and the system prefers dark; the first render has the
  preference \<open>Dark\<close> and the resolved theme \<open>Light\<close>.
\<close>

theorem first_render_Light_witness:
  "ThemeProvider True
      \<lparr>localStorage =
         \<lparr>entries = [(THEME_STORAGE_KEY, ''dark'')], getFault = None, setFault = None\<rparr>,
       prefersDark = True, classList = []\<rparr>
     = Inr \<lparr>localStorage =
         \<lparr>entries = [(THEME_STORAGE_KEY, ''dark'')], getFault = None, setFault = None\<rparr>,
       prefersDark = True, classList = [],
       theme = Dark, resolvedTheme = Light, listeners = []\<rparr> \<and>
   resolvedTheme \<lparr>localStorage =
         \<lparr>entries = [(THEME_STORAGE_KEY, ''dark'')], getFault = None, setFault = None\<rparr>,
       prefersDark = True, classList = [],
       theme = Dark, resolvedTheme = Light, listeners = []\<rparr> = Light \<and>
   ctx_resolvedTheme (contextValue \<lparr>localStorage =
         \<lparr>entries = [(THEME_STORAGE_KEY, ''dark'')], getFault = None, setFault = None\<rparr>,
       prefersDark = True, classList = [],
       theme = Dark, resolvedTheme = Light, listeners = []\<rparr>) = Light"
proof -
  let ?st = "\<lparr>entries = [(THEME_STORAGE_KEY, ''dark'')], getFault = None, setFault = None\<rparr>"
  let ?b = "\<lparr>localStorage = ?st, prefersDark = True, classList = []\<rparr>"
  let ?s = "\<lparr>localStorage = ?st, prefersDark = True, classList = [],
             theme = Dark, resolvedTheme = Light, listeners = []\<rparr>"
  have m: "ThemeProvider True ?b = Inr ?s"
    by (simp add: ThemeProvider_def initialTheme_def getItem_def)
  from first_render_Light [of True ?b ?s]
  have "ThemeProvider True ?b = Inr ?s \<longrightarrow>
      resolvedTheme ?s = Light \<and> ctx_resolvedTheme (contextValue ?s) = Light"
    by (rule conjunct1)
  from this m have c: "resolvedTheme ?s = Light \<and> ctx_resolvedTheme (contextValue ?s) = Light"
    by (rule mp)
  show ?thesis by (rule conjI [OF m c])
qed

text \<open>
  C10. Called where no \<open>ThemeProvider\<close> encloses the caller, \<open>useTheme\<close> throws its
  error; called inside one, it returns the \<open>theme\<close>, \<open>setTheme\<close> and \<open>resolvedTheme\<close>
  of the nearest enclosing provider.
\<close>

theorem useTheme_accessor:
  "useTheme [] = Inl (Error ''useTheme must be used within a ThemeProvider'') \<and>
   useTheme (s # outer) =
     Inr \<lparr>ctx_theme = theme s, ctx_setTheme = setTheme, ctx_resolvedTheme = resolvedTheme s\<rparr>"
  by (simp add: useTheme_def useContext_def contextValue_def)

section \<open>Properties of the media embed\<close>

lemma Home_effect_guarded: "playerRef h = Some p \<Longrightarrow> Home_effect h = h"
  by (simp add: Home_effect_def split: option.split)

lemma Home_effect_unattached: "artRef h = None \<Longrightarrow> Home_effect h = h"
  by (simp add: Home_effect_def)

lemma Home_effect_constructs:
  "artRef h = Some c \<Longrightarrow> playerRef h = None \<Longrightarrow>
     Home_effect h =
       h\<lparr>live := live h @ [(nextPlayer h, c)], nextPlayer := Suc (nextPlayer h),
         playerRef := Some (nextPlayer h)\<rparr>"
  by (simp add: Home_effect_def new_Artplayer_def)

lemma Home_mount_constructs:
  "Home_mount c h =
     h\<lparr>artRef := Some c, live := live h @ [(nextPlayer h, c)],
       nextPlayer := Suc (nextPlayer h), playerRef := Some (nextPlayer h)\<rparr>"
  by (simp add: Home_mount_def Home_effect_constructs)

lemma Home_cleanup_destroys:
  "playerRef h = Some p \<Longrightarrow>
     Home_cleanup h =
       h\<lparr>live := filter (\<lambda>(q, c). q \<noteq> p) (live h), destroyed := destroyed h @ [p],
         playerRef := None\<rparr>"
  by (simp add: Home_cleanup_def destroy_def)

lemma Home_cleanup_idle: "playerRef h = None \<Longrightarrow> Home_cleanup h = h"
  by (simp add: Home_cleanup_def)

lemma page_inv_effect: "page_inv h \<Longrightarrow> page_inv (Home_effect h)"
proof (cases "artRef h")
  case None
  assume "page_inv h"
  with None show ?thesis by (simp add: Home_effect_unattached)
next
  case (Some c)
  assume i: "page_inv h"
  show ?thesis
  proof (cases "playerRef h")
    case None
    with Some i show ?thesis
      by (auto simp add: Home_effect_constructs page_inv_def less_Suc_eq)
  next
    case (Some p)
    with i show ?thesis by (simp add: Home_effect_guarded)
  qed
qed

lemma page_inv_cleanup: "page_inv h \<Longrightarrow> page_inv (Home_cleanup h)"
proof (cases "playerRef h")
  case None
  assume "page_inv h"
  with None show ?thesis by (simp add: Home_cleanup_idle)
next
  case (Some p)
  assume "page_inv h"
  with Some show ?thesis
    by (auto simp add: Home_cleanup_destroys page_inv_def)
qed

lemma page_inv_unmounted: "page_inv h \<Longrightarrow> artRef h = None \<Longrightarrow> playerRef h = None \<and> live h = []"
  by (cases "playerRef h") (auto simp add: page_inv_def)

lemma page_inv_mount: "page_inv h \<Longrightarrow> artRef h = None \<Longrightarrow> page_inv (Home_mount c h)"
proof -
  assume i: "page_inv h" and u: "artRef h = None"
  then have "playerRef h = None \<and> live h = []" by (rule page_inv_unmounted)
  with i show ?thesis
    by (auto simp add: Home_mount_constructs page_inv_def less_Suc_eq)
qed

lemma page_inv_unmount: "page_inv h \<Longrightarrow> page_inv (Home_unmount h)"
proof -
  assume "page_inv h"
  then have "page_inv (Home_cleanup h)" by (rule page_inv_cleanup)
  moreover have "playerRef (Home_cleanup h) = None"
    by (simp add: Home_cleanup_def destroy_def split: option.split)
  ultimately show ?thesis by (simp add: Home_unmount_def page_inv_def)
qed

lemma page_reachable_inv: "page_reachable h \<Longrightarrow> page_inv h"
proof (induction rule: page_reachable.induct)
  case (page_start n)
  show ?case by (simp add: page_inv_def)
next
  case (page_mount h c)
  then show ?case by (simp add: page_inv_mount)
next
  case (page_effect h)
  then show ?case by (simp add: page_inv_effect)
next
  case (page_cleanup h)
  then show ?case by (simp add: page_inv_cleanup)
next
  case (page_unmount h)
  then show ?case by (simp add: page_inv_unmount)
qed

lemma page_inv_live: "page_inv h \<Longrightarrow> length (live h) \<le> 1"
  by (cases "playerRef h") (auto simp add: page_inv_def)

text \<open>
  C7. In every state of the page: mounting (possible only while the page is not
  mounted) constructs exactly one player, a new object that is not among the destroyed
  ones, in the new container, and destroys none; while a player is live the effect
  constructs nothing; unmounting destroys the player in \<open>playerRef\<close> and leaves no live
  player; and no container ever has more than one live player.
\<close>

theorem media_embed_lifecycle:
  "page_reachable h \<Longrightarrow>
     (artRef h = None \<longrightarrow>
        playerRef (Home_mount c h) = Some (nextPlayer h) \<and>
        live (Home_mount c h) = [(nextPlayer h, c)] \<and>
        nextPlayer (Home_mount c h) = Suc (nextPlayer h) \<and>
        destroyed (Home_mount c h) = destroyed h \<and>
        nextPlayer h \<notin> set (destroyed h)) \<and>
     (live h \<noteq> [] \<or> playerRef h \<noteq> None \<longrightarrow> Home_effect h = h) \<and>
     (\<forall>p. playerRef h = Some p \<longrightarrow>
        playerRef (Home_unmount h) = None \<and>
        live (Home_unmount h) = [] \<and>
        destroyed (Home_unmount h) = destroyed h @ [p]) \<and>
     length (filter (\<lambda>(p, c'). c' = c) (live h)) \<le> 1"
proof -
  assume r: "page_reachable h"
  then have i: "page_inv h" by (rule page_reachable_inv)
  have 1: "artRef h = None \<longrightarrow>
        playerRef (Home_mount c h) = Some (nextPlayer h) \<and>
        live (Home_mount c h) = [(nextPlayer h, c)] \<and>
        nextPlayer (Home_mount c h) = Suc (nextPlayer h) \<and>
        destroyed (Home_mount c h) = destroyed h \<and>
        nextPlayer h \<notin> set (destroyed h)"
  proof
    assume u: "artRef h = None"
    with i have "playerRef h = None \<and> live h = []" by (rule page_inv_unmounted)
    moreover from i have "nextPlayer h \<notin> set (destroyed h)"
      by (auto simp add: page_inv_def)
    ultimately show "playerRef (Home_mount c h) = Some (nextPlayer h) \<and>
        live (Home_mount c h) = [(nextPlayer h, c)] \<and>
        nextPlayer (Home_mount c h) = Suc (nextPlayer h) \<and>
        destroyed (Home_mount c h) = destroyed h \<and>
        nextPlayer h \<notin> set (destroyed h)"
      by (simp add: Home_mount_constructs)
  qed
  have 2: "live h \<noteq> [] \<or> playerRef h \<noteq> None \<longrightarrow> Home_effect h = h"
  proof
    assume "live h \<noteq> [] \<or> playerRef h \<noteq> None"
    with i obtain p where "playerRef h = Some p"
      by (cases "playerRef h") (auto simp add: page_inv_def)
    then show "Home_effect h = h" by (rule Home_effect_guarded)
  qed
  have 3: "\<forall>p. playerRef h = Some p \<longrightarrow>
        playerRef (Home_unmount h) = None \<and>
        live (Home_unmount h) = [] \<and>
        destroyed (Home_unmount h) = destroyed h @ [p]"
  proof (intro allI impI)
    fix p
    assume p: "playerRef h = Some p"
    with i have "\<exists>c. live h = [(p, c)]" by (auto simp add: page_inv_def)
    with p show "playerRef (Home_unmount h) = None \<and>
        live (Home_unmount h) = [] \<and>
        destroyed (Home_unmount h) = destroyed h @ [p]"
      by (auto simp add: Home_unmount_def Home_cleanup_destroys)
  qed
  have "length (filter (\<lambda>(p, c'). c' = c) (live h)) \<le> length (live h)"
    by (rule length_filter_le)
  also from i have "\<dots> \<le> 1" by (rule page_inv_live)
  finally have 4: "length (filter (\<lambda>(p, c'). c' = c) (live h)) \<le> 1" .
  from 1 2 3 4 show ?thesis by (intro conjI)
qed

text \<open>
  Witness: the page was mounted in container 7 and got player 0. In that state the
  effect constructs nothing and unmounting destroys player 0; after the unmount, a mount
  in container 8 constructs player 1.
\<close>

theorem media_embed_lifecycle_witness:
  "page_reachable
      \<lparr>nextPlayer = 1, live = [], destroyed = [0], artRef = None, playerRef = None\<rparr> \<and>
   artRef \<lparr>nextPlayer = 1, live = [], destroyed = [0], artRef = None, playerRef = None\<rparr>
     = None \<and>
   playerRef (Home_mount 8
      \<lparr>nextPlayer = 1, live = [], destroyed = [0], artRef = None, playerRef = None\<rparr>)
     = Some 1 \<and>
   live (Home_mount 8
      \<lparr>nextPlayer = 1, live = [], destroyed = [0], artRef = None, playerRef = None\<rparr>)
     = [(1, 8)] \<and>
   page_reachable
      \<lparr>nextPlayer = 1, live = [(0, 7)], destroyed = [], artRef = Some 7, playerRef = Some 0\<rparr> \<and>
   playerRef
      \<lparr>nextPlayer = 1, live = [(0, 7)], destroyed = [], artRef = Some 7, playerRef = Some 0\<rparr>
     = Some 0 \<and>
   Home_effect
      \<lparr>nextPlayer = 1, live = [(0, 7)], destroyed = [], artRef = Some 7, playerRef = Some 0\<rparr>
     = \<lparr>nextPlayer = 1, live = [(0, 7)], destroyed = [], artRef = Some 7, playerRef = Some 0\<rparr> \<and>
   live (Home_unmount
      \<lparr>nextPlayer = 1, live = [(0, 7)], destroyed = [], artRef = Some 7, playerRef = Some 0\<rparr>)
     = [] \<and>
   destroyed (Home_unmount
      \<lparr>nextPlayer = 1, live = [(0, 7)], destroyed = [], artRef = Some 7, playerRef = Some 0\<rparr>)
     = [0]"
proof -
  let ?u = "\<lparr>nextPlayer = 0, live = [], destroyed = [], artRef = None, playerRef = None\<rparr>"
  let ?m = "\<lparr>nextPlayer = 1, live = [(0, 7)], destroyed = [], artRef = Some 7,
             playerRef = Some 0\<rparr>"
  let ?u2 = "\<lparr>nextPlayer = 1, live = [], destroyed = [0], artRef = None, playerRef = None\<rparr>"
  have ru: "page_reachable ?u" by (rule page_start)
  have em: "Home_mount 7 ?u = ?m" by (simp add: Home_mount_constructs)
  have "page_reachable (Home_mount 7 ?u)" using ru by (rule page_mount) simp
  then have rm: "page_reachable ?m" by (simp only: em)
  have eu: "Home_unmount ?m = ?u2" by (simp add: Home_unmount_def Home_cleanup_destroys)
  have "page_reachable (Home_unmount ?m)" using rm by (rule page_unmount) simp
  then have ru2: "page_reachable ?u2" by (simp only: eu)
  have h1: "artRef ?u2 = None" by simp
  have h2: "live ?m \<noteq> [] \<or> playerRef ?m \<noteq> None" by simp
  have h3: "playerRef ?m = Some 0" by simp
  note a = media_embed_lifecycle [OF ru2, of 8]
  note b = media_embed_lifecycle [OF rm, of 7]
  from a [THEN conjunct1] h1
  have c1: "playerRef (Home_mount 8 ?u2) = Some (nextPlayer ?u2) \<and>
      live (Home_mount 8 ?u2) = [(nextPlayer ?u2, 8)] \<and>
      nextPlayer (Home_mount 8 ?u2) = Suc (nextPlayer ?u2) \<and>
      destroyed (Home_mount 8 ?u2) = destroyed ?u2 \<and>
      nextPlayer ?u2 \<notin> set (destroyed ?u2)"
    by (rule mp)
  from c1 [THEN conjunct1] have c1a: "playerRef (Home_mount 8 ?u2) = Some 1" by simp
  from c1 [THEN conjunct2, THEN conjunct1] have c1b: "live (Home_mount 8 ?u2) = [(1, 8)]"
    by simp
  from b [THEN conjunct2, THEN conjunct1] h2 have c2: "Home_effect ?m = ?m" by (rule mp)
  from b [THEN conjunct2, THEN conjunct2, THEN conjunct1, rule_format, OF h3]
  have c3: "playerRef (Home_unmount ?m) = None \<and> live (Home_unmount ?m) = [] \<and>
      destroyed (Home_unmount ?m) = destroyed ?m @ [0]" .
  note c3a = c3 [THEN conjunct2, THEN conjunct1]
  from c3 [THEN conjunct2, THEN conjunct2] have c3b: "destroyed (Home_unmount ?m) = [0]"
    by simp
  from ru2 h1 c1a c1b rm h3 c2 c3a c3b show ?thesis by (intro conjI)
qed

end
